theory Spec2Isabelle
  imports Main "HOL-Library.Word" "HOL-Library.Sublist"
begin

section \<open>The serial session of \<^verbatim>\<open>serial_windows.cpp\<close>\<close>

text \<open>
  The source keeps one serial session in four namespace-scope variables and drives it
  through the Win32 calls \<^verbatim>\<open>CreateFile\<close>, \<^verbatim>\<open>GetCommState\<close>, \<^verbatim>\<open>SetCommState\<close>,
  \<^verbatim>\<open>SetCommTimeouts\<close>, \<^verbatim>\<open>ReadFile\<close>, \<^verbatim>\<open>WriteFile\<close> and \<^verbatim>\<open>CloseHandle\<close>.
  Those calls belong to the operating system, not to the repository. Each function of the
  model therefore takes the answers the driver gives to the calls the function makes, and
  returns, next to its C++ return value and the updated variables, the list of calls it
  made, in order and with their arguments. Every statement below holds for whatever the
  driver answers.
\<close>

subsection \<open>Machine types\<close>

text \<open>
  \<^verbatim>\<open>int\<close> and \<^verbatim>\<open>DWORD\<close> are 32 bits wide and \<^verbatim>\<open>BYTE\<close> is 8 bits wide; an \<^verbatim>\<open>int\<close> is
  read with \<open>sint\<close>, a \<^verbatim>\<open>DWORD\<close> with \<open>unat\<close>, and a conversion between the two keeps the
  bit pattern. \<^verbatim>\<open>char\<close> is \<open>char\<close> and \<^verbatim>\<open>std::string\<close> is \<open>string\<close>.
\<close>

type_synonym c_int = "32 word"
type_synonym DWORD = "32 word"
type_synonym BYTE = "8 word"

text \<open>
  A \<^verbatim>\<open>HANDLE\<close> is an opaque pointer-sized value. \<^verbatim>\<open>INVALID_HANDLE_VALUE\<close> is
  \<^verbatim>\<open>(HANDLE)-1\<close>, and a namespace-scope \<^verbatim>\<open>HANDLE\<close> without initialiser starts as the null
  pointer.
\<close>

type_synonym HANDLE = int

definition INVALID_HANDLE_VALUE :: HANDLE where
  "INVALID_HANDLE_VALUE = - 1"

definition NULL_HANDLE :: HANDLE where
  "NULL_HANDLE = 0"

text \<open>
  The members of \<^verbatim>\<open>DCB\<close> that the source names, and one field standing for all the others
  (flow-control flags, XON/XOFF characters and so on), which the source never touches.
\<close>

record DCB =
  DCBlength :: DWORD
  BaudRate :: DWORD
  ByteSize :: BYTE
  Parity :: BYTE
  StopBits :: BYTE
  other_members :: nat

record COMMTIMEOUTS =
  ReadIntervalTimeout :: DWORD
  ReadTotalTimeoutMultiplier :: DWORD
  ReadTotalTimeoutConstant :: DWORD
  WriteTotalTimeoutMultiplier :: DWORD
  WriteTotalTimeoutConstant :: DWORD

subsection \<open>Status codes\<close>

datatype StatusCodes =
    SUCCESS
  | INVALID_HANDLE_ERROR
  | GET_PROPERTY_ERROR
  | SET_PROPERTY_ERROR
  | SET_TIMEOUT_ERROR
  | CLOSE_HANDLE_ERROR
  | READ_ERROR
  | WRITE_ERROR
  | BUFFER_ERROR

text \<open>
  Modelled from the spec: the header \<^verbatim>\<open>serial_windows.h\<close>, which declares \<^verbatim>\<open>StatusCodes\<close>
  and \<^verbatim>\<open>status\<close>, is not among the sources. The specification lists the codes in the
  order below, calls the enumeration small, dense and signed, fixes \<^verbatim>\<open>SUCCESS\<close> as 0 and
  makes every error negative. The proofs use only that: \<^verbatim>\<open>SUCCESS\<close> is 0, every other
  code is negative, and different codes have different values.
\<close>

fun status :: "StatusCodes \<Rightarrow> c_int" where
  "status SUCCESS = 0"
| "status INVALID_HANDLE_ERROR = - 1"
| "status GET_PROPERTY_ERROR = - 2"
| "status SET_PROPERTY_ERROR = - 3"
| "status SET_TIMEOUT_ERROR = - 4"
| "status CLOSE_HANDLE_ERROR = - 5"
| "status READ_ERROR = - 6"
| "status WRITE_ERROR = - 7"
| "status BUFFER_ERROR = - 8"

subsection \<open>The session variables and the driver calls\<close>

text \<open>
  The four variables at the top of \<^verbatim>\<open>namespace WindowsSystem\<close>. \<open>initial_session\<close> is
  their value when the program starts: static storage is zero-initialised, the two
  structures by their \<^verbatim>\<open>= {0}\<close>, and the string is empty.
\<close>

record session =
  hSerialPort :: HANDLE
  dcbSerialParams :: DCB
  timeouts :: COMMTIMEOUTS
  data :: string

definition zero_DCB :: DCB where
  "zero_DCB = \<lparr>DCBlength = 0, BaudRate = 0, ByteSize = 0, Parity = 0, StopBits = 0,
     other_members = 0\<rparr>"

definition zero_COMMTIMEOUTS :: COMMTIMEOUTS where
  "zero_COMMTIMEOUTS = \<lparr>ReadIntervalTimeout = 0, ReadTotalTimeoutMultiplier = 0,
     ReadTotalTimeoutConstant = 0, WriteTotalTimeoutMultiplier = 0,
     WriteTotalTimeoutConstant = 0\<rparr>"

definition initial_session :: session where
  "initial_session = \<lparr>hSerialPort = NULL_HANDLE, dcbSerialParams = zero_DCB,
     timeouts = zero_COMMTIMEOUTS, data = []\<rparr>"

text \<open>
  One constructor per driver call, with the arguments the source passes. \<open>CreateFile\<close>
  also records the handle the driver returned, so that a trace tells which handles were
  handed out. \<open>ReadFile\<close> carries \<^verbatim>\<open>nNumberOfBytesToRead\<close>; \<open>WriteFile\<close> carries the
  caller's buffer and \<^verbatim>\<open>nNumberOfBytesToWrite\<close>.
\<close>

datatype api_call =
    CreateFile string HANDLE
  | GetCommState HANDLE
  | SetCommState HANDLE DCB
  | SetCommTimeouts HANDLE COMMTIMEOUTS
  | CloseHandle HANDLE
  | ReadFile HANDLE DWORD
  | WriteFile HANDLE string DWORD

text \<open>
  The driver's answer to one \<^verbatim>\<open>ReadFile\<close>: failure, or success together with the bytes
  the device can deliver to this call before its timeouts expire. \<^verbatim>\<open>ReadFile\<close> stores
  at most \<^verbatim>\<open>nNumberOfBytesToRead\<close> of them, which the model writes as \<open>take\<close>.
  Likewise for \<^verbatim>\<open>WriteFile\<close>: failure, or the number of bytes the device can accept,
  of which at most \<^verbatim>\<open>nNumberOfBytesToWrite\<close> are written.
\<close>

datatype read_answer = Read_failed | Read_ok string

datatype write_answer = Write_failed | Write_ok nat

text \<open>
  The answers of the driver during one operation. \<open>CreateFile_answer\<close> is the handle
  returned for a device name, \<open>GetCommState_answer\<close> the state stored (\<open>None\<close> when
  the call returns \<^verbatim>\<open>FALSE\<close>), \<open>ReadFile_answer k\<close> the answer to the \<open>k\<close>-th
  \<^verbatim>\<open>ReadFile\<close> of the operation, counted from 0; the others are the \<^verbatim>\<open>BOOL\<close> results.
\<close>

record driver =
  CreateFile_answer :: "string \<Rightarrow> HANDLE"
  GetCommState_answer :: "DCB option"
  SetCommState_answer :: bool
  SetCommTimeouts_answer :: bool
  CloseHandle_answer :: bool
  ReadFile_answer :: "nat \<Rightarrow> read_answer"
  WriteFile_answer :: write_answer

text \<open>
  The handles a sequence of driver calls leaves open: those a \<open>CreateFile\<close> handed out
  and no later \<open>CloseHandle\<close> was called on.
\<close>

fun unreleased :: "api_call list \<Rightarrow> HANDLE list \<Rightarrow> HANDLE list" where
  "unreleased [] hs = hs"
| "unreleased (CreateFile name h # cs) hs =
     unreleased cs (if h = INVALID_HANDLE_VALUE then hs else h # hs)"
| "unreleased (CloseHandle h # cs) hs = unreleased cs (removeAll h hs)"
| "unreleased (c # cs) hs = unreleased cs hs"

subsection \<open>Strings and buffers\<close>

text \<open>
  \<^verbatim>\<open>std::string(static_cast<char*>(p))\<close> reads the bytes at \<open>p\<close> up to the first zero
  byte. A \<^verbatim>\<open>void*\<close> argument is modelled by the bytes stored at it.
\<close>

definition NUL :: char where
  "NUL = CHR 0x00"

definition c_str :: "string \<Rightarrow> string" where
  "c_str bytes = takeWhile (\<lambda>c. c \<noteq> NUL) bytes"

text \<open>
  \<^verbatim>\<open>s.find(pat)\<close>: the first position at which \<open>pat\<close> occurs in \<open>s\<close>, \<open>None\<close> for
  \<^verbatim>\<open>std::string::npos\<close>.
\<close>

fun string_find :: "string \<Rightarrow> string \<Rightarrow> nat option" where
  "string_find [] pat = (if pat = [] then Some 0 else None)"
| "string_find (c # cs) pat =
     (if prefix pat (c # cs) then Some 0 else map_option Suc (string_find cs pat))"

text \<open>\<^verbatim>\<open>s.erase(pos)\<close> with \<open>pos \<le> s.length()\<close>: everything from \<open>pos\<close> on is removed.\<close>

definition erase :: "string \<Rightarrow> nat \<Rightarrow> string" where
  "erase s pos = take pos s"

text \<open>
  \<^verbatim>\<open>memcpy(dst, src, n)\<close> overwrites the first \<open>n\<close> bytes at \<open>dst\<close>. The caller's buffer
  is the list of bytes stored at the pointer; a copy longer than that list runs past the
  end of the caller's storage, and the model shows the bytes where they land.
\<close>

definition memcpy :: "string \<Rightarrow> string \<Rightarrow> nat \<Rightarrow> string" where
  "memcpy dst src n = take n src @ drop n dst"

text \<open>\<^verbatim>\<open>std::to_string\<close> on a non-negative number: its decimal digits.\<close>

fun to_string :: "nat \<Rightarrow> string" where
  "to_string n =
     (if n < 10 then [char_of (48 + n)]
      else to_string (n div 10) @ [char_of (48 + n mod 10)])"

declare to_string.simps [simp del]

subsection \<open>\<^verbatim>\<open>open\<close>\<close>

text \<open>\<^verbatim>\<open>sizeof(DCB)\<close>: 28 bytes in the Windows headers.\<close>

definition sizeof_DCB :: DWORD where
  "sizeof_DCB = 28"

text \<open>
  The results of \<^verbatim>\<open>CloseHandle\<close> are discarded by \<^verbatim>\<open>open\<close>. The assignments to
  \<^verbatim>\<open>ByteSize\<close>, \<^verbatim>\<open>Parity\<close> and \<^verbatim>\<open>StopBits\<close> narrow an \<^verbatim>\<open>int\<close> to a \<^verbatim>\<open>BYTE\<close>.
\<close>

definition "open" ::
  "session \<Rightarrow> string \<Rightarrow> c_int \<Rightarrow> c_int \<Rightarrow> c_int \<Rightarrow> c_int \<Rightarrow> driver
     \<Rightarrow> c_int \<times> session \<times> api_call list" where
  "open s portName baudrate dataBits parity stopBits drv =
     (let s1 = s\<lparr>dcbSerialParams := (dcbSerialParams s)\<lparr>DCBlength := sizeof_DCB\<rparr>\<rparr>;
          h = CreateFile_answer drv portName;
          s2 = s1\<lparr>hSerialPort := h\<rparr>;
          c1 = [CreateFile portName h]
      in if h = INVALID_HANDLE_VALUE then (status INVALID_HANDLE_ERROR, s2, c1)
         else case GetCommState_answer drv of
           None \<Rightarrow>
             (status GET_PROPERTY_ERROR, s2, c1 @ [GetCommState h, CloseHandle h])
         | Some fetched \<Rightarrow>
             let dcb = fetched\<lparr>BaudRate := baudrate, ByteSize := ucast dataBits,
                         Parity := ucast parity, StopBits := ucast stopBits\<rparr>;
                 s3 = s2\<lparr>dcbSerialParams := dcb\<rparr>;
                 c2 = c1 @ [GetCommState h, SetCommState h dcb]
             in if \<not> SetCommState_answer drv
                then (status SET_PROPERTY_ERROR, s3, c2 @ [CloseHandle h])
                else
                  let t = (timeouts s3)\<lparr>ReadIntervalTimeout := 50,
                              ReadTotalTimeoutConstant := 50,
                              ReadTotalTimeoutMultiplier := 10,
                              WriteTotalTimeoutConstant := 50,
                              WriteTotalTimeoutMultiplier := 10\<rparr>;
                      s4 = s3\<lparr>timeouts := t\<rparr>;
                      c3 = c2 @ [SetCommTimeouts h t]
                  in if \<not> SetCommTimeouts_answer drv
                     then (status SET_TIMEOUT_ERROR, s4, c3 @ [CloseHandle h])
                     else (status SUCCESS, s4, c3))"

subsection \<open>\<^verbatim>\<open>close\<close>\<close>

text \<open>
  \<^verbatim>\<open>close\<close> compares the variable with \<^verbatim>\<open>INVALID_HANDLE_VALUE\<close>, calls
  \<^verbatim>\<open>CloseHandle\<close> and returns. It assigns nothing: \<open>hSerialPort\<close> keeps its value.
\<close>

definition close :: "session \<Rightarrow> driver \<Rightarrow> c_int \<times> session \<times> api_call list" where
  "close s drv =
     (if hSerialPort s = INVALID_HANDLE_VALUE then (status INVALID_HANDLE_ERROR, s, [])
      else if \<not> CloseHandle_answer drv
           then (status CLOSE_HANDLE_ERROR, s, [CloseHandle (hSerialPort s)])
           else (status SUCCESS, s, [CloseHandle (hSerialPort s)]))"

subsection \<open>\<^verbatim>\<open>read\<close>\<close>

text \<open>
  The operations that take the caller's buffer return it as it is afterwards.
  \<^verbatim>\<open>ReadFile\<close> receives \<^verbatim>\<open>bufferSize\<close> converted to \<^verbatim>\<open>DWORD\<close> and stores the bytes it
  read at the start of the buffer; \<^verbatim>\<open>return bytesRead\<close> converts the \<^verbatim>\<open>DWORD\<close> back to
  \<^verbatim>\<open>int\<close>.
\<close>

definition read ::
  "session \<Rightarrow> string \<Rightarrow> c_int \<Rightarrow> c_int \<Rightarrow> c_int \<Rightarrow> driver
     \<Rightarrow> c_int \<times> session \<times> string \<times> api_call list" where
  "read s buffer bufferSize timeout multiplier drv =
     (if hSerialPort s = INVALID_HANDLE_VALUE
      then (status INVALID_HANDLE_ERROR, s, buffer, [])
      else
        let t = (timeouts s)\<lparr>ReadIntervalTimeout := timeout,
                    ReadTotalTimeoutConstant := timeout,
                    ReadTotalTimeoutMultiplier := multiplier\<rparr>;
            s1 = s\<lparr>timeouts := t\<rparr>;
            c1 = [SetCommTimeouts (hSerialPort s) t]
        in if \<not> SetCommTimeouts_answer drv then (status SET_TIMEOUT_ERROR, s1, buffer, c1)
           else case ReadFile_answer drv 0 of
             Read_failed \<Rightarrow>
               (status READ_ERROR, s1, buffer, c1 @ [ReadFile (hSerialPort s) bufferSize])
           | Read_ok available \<Rightarrow>
               let received = take (unat bufferSize) available;
                   bytesRead = (of_nat (length received) :: DWORD)
               in (bytesRead, s1, memcpy buffer received (length received),
                   c1 @ [ReadFile (hSerialPort s) bufferSize]))"

subsection \<open>\<^verbatim>\<open>readUntil\<close>\<close>

text \<open>
  The \<^verbatim>\<open>for\<close> loop, entered with the counter \<open>i\<close> and the accumulator \<open>dat\<close> (the
  variable \<^verbatim>\<open>data\<close>). It returns whether it ran to its end (\<open>False\<close> when a
  \<^verbatim>\<open>ReadFile\<close> failed and the function returned from inside the loop), the accumulator,
  and the driver calls made. Each \<^verbatim>\<open>ReadFile\<close> asks for \<^verbatim>\<open>sizeof(bufferChar) = 1\<close> byte.
\<close>

function readUntil_loop ::
  "driver \<Rightarrow> HANDLE \<Rightarrow> c_int \<Rightarrow> string \<Rightarrow> c_int \<Rightarrow> string \<Rightarrow> bool \<times> string \<times> api_call list" where
  "readUntil_loop drv h bufferSize searchString i dat =
     (if i <s bufferSize \<and> string_find dat (c_str searchString) = None then
        (case ReadFile_answer drv (unat i) of
           Read_failed \<Rightarrow> (False, dat, [ReadFile h 1])
         | Read_ok available \<Rightarrow>
             let bufferChar = take 1 available
             in if length bufferChar = 0 then (True, dat, [ReadFile h 1])
                else
                  (case readUntil_loop drv h bufferSize searchString (i + 1) (dat @ bufferChar) of
                     (finished, dat', calls) \<Rightarrow> (finished, dat', ReadFile h 1 # calls)))
      else (True, dat, []))"
  by pat_completeness auto

termination readUntil_loop
proof (relation "measure (\<lambda>(drv, h, bufferSize, searchString, i, dat).
    nat (sint bufferSize - sint i))")
  show "wf (measure (\<lambda>(drv :: driver, h :: HANDLE, bufferSize :: c_int,
      searchString :: string, i :: c_int, dat :: string). nat (sint bufferSize - sint i)))"
    by simp
next
  fix drv :: driver and h :: HANDLE and bufferSize :: c_int and searchString :: string
    and i :: c_int and dat :: string and available bufferChar :: string
  assume "i <s bufferSize \<and> string_find dat (c_str searchString) = None"
  then have less: "sint i < sint bufferSize"
    by (simp add: word_sless_alt)
  have "sint bufferSize < 2 ^ 31"
    using sint_lt [of bufferSize] by simp
  moreover have "- (2 ^ 31) \<le> sint i"
    using sint_ge [of i] by simp
  ultimately have "- (2 ^ 31) \<le> sint i + 1 \<and> sint i + 1 < 2 ^ 31"
    using less by simp
  then have "sint (i + 1) = sint i + 1"
    by (simp add: sint_word_ariths signed_take_bit_int_eq_self)
  with less
  show "((drv, h, bufferSize, searchString, i + 1, dat @ bufferChar),
         (drv, h, bufferSize, searchString, i, dat))
        \<in> measure (\<lambda>(drv, h, bufferSize, searchString, i, dat).
            nat (sint bufferSize - sint i))"
    by simp
qed

declare readUntil_loop.simps [simp del]

text \<open>
  \<^verbatim>\<open>data.c_str()\<close> is the accumulator followed by a zero byte, and
  \<^verbatim>\<open>return data.length()\<close> converts a \<^verbatim>\<open>size_t\<close> to \<^verbatim>\<open>int\<close>.
\<close>

definition readUntil ::
  "session \<Rightarrow> string \<Rightarrow> c_int \<Rightarrow> c_int \<Rightarrow> c_int \<Rightarrow> string \<Rightarrow> driver
     \<Rightarrow> c_int \<times> session \<times> string \<times> api_call list" where
  "readUntil s buffer bufferSize timeout multiplier searchString drv =
     (if hSerialPort s = INVALID_HANDLE_VALUE
      then (status INVALID_HANDLE_ERROR, s, buffer, [])
      else
        let t = (timeouts s)\<lparr>ReadIntervalTimeout := timeout,
                    ReadTotalTimeoutConstant := timeout,
                    ReadTotalTimeoutMultiplier := multiplier\<rparr>;
            s1 = s\<lparr>timeouts := t\<rparr>;
            c1 = [SetCommTimeouts (hSerialPort s) t]
        in if \<not> SetCommTimeouts_answer drv then (status SET_TIMEOUT_ERROR, s1, buffer, c1)
           else
             (case readUntil_loop drv (hSerialPort s) bufferSize searchString 0 [] of
                (finished, dat, c2) \<Rightarrow>
                  let s2 = s1\<lparr>data := dat\<rparr>
                  in if \<not> finished then (status READ_ERROR, s2, buffer, c1 @ c2)
                     else (of_nat (length dat), s2,
                           memcpy buffer (dat @ [NUL]) (length dat + 1), c1 @ c2)))"

subsection \<open>\<^verbatim>\<open>write\<close>\<close>

text \<open>
  \<^verbatim>\<open>write\<close> has no test of the handle. \<^verbatim>\<open>WriteFile\<close> receives the buffer and
  \<^verbatim>\<open>bufferSize\<close> converted to \<^verbatim>\<open>DWORD\<close>.
\<close>

definition "write" ::
  "session \<Rightarrow> string \<Rightarrow> c_int \<Rightarrow> c_int \<Rightarrow> c_int \<Rightarrow> driver
     \<Rightarrow> c_int \<times> session \<times> api_call list" where
  "write s buffer bufferSize timeout multiplier drv =
     (let t = (timeouts s)\<lparr>WriteTotalTimeoutConstant := timeout,
                  WriteTotalTimeoutMultiplier := multiplier\<rparr>;
          s1 = s\<lparr>timeouts := t\<rparr>;
          c1 = [SetCommTimeouts (hSerialPort s) t]
      in if \<not> SetCommTimeouts_answer drv then (status SET_TIMEOUT_ERROR, s1, c1)
         else case WriteFile_answer drv of
           Write_failed \<Rightarrow>
             (status WRITE_ERROR, s1, c1 @ [WriteFile (hSerialPort s) buffer bufferSize])
         | Write_ok accepted \<Rightarrow>
             let bytesWritten = (of_nat (min accepted (unat bufferSize)) :: DWORD)
             in (bytesWritten, s1, c1 @ [WriteFile (hSerialPort s) buffer bufferSize]))"

subsection \<open>\<^verbatim>\<open>getAvailablePorts\<close>\<close>

text \<open>
  The probing loop, entered with the counter \<open>i\<close>, the string \<^verbatim>\<open>result\<close> and
  \<^verbatim>\<open>portsCounter\<close>. \<^verbatim>\<open>CloseHandle\<close> is called on every probe, also on a failed one.
\<close>

function getAvailablePorts_loop ::
  "driver \<Rightarrow> string \<Rightarrow> nat \<Rightarrow> string \<Rightarrow> c_int \<Rightarrow> string \<times> c_int \<times> api_call list" where
  "getAvailablePorts_loop drv separator i result portsCounter =
     (if i \<le> 256 then
        let portName = ''COM'' @ to_string i;
            hPort = CreateFile_answer drv portName;
            portsCounter' = (if hPort \<noteq> INVALID_HANDLE_VALUE then portsCounter + 1
                             else portsCounter);
            result' = (if hPort \<noteq> INVALID_HANDLE_VALUE
                       then result @ (portName @ c_str separator) else result)
        in (case getAvailablePorts_loop drv separator (i + 1) result' portsCounter' of
              (res, cnt, calls) \<Rightarrow>
                (res, cnt, CreateFile portName hPort # CloseHandle hPort # calls))
      else (result, portsCounter, []))"
  by pat_completeness auto

termination getAvailablePorts_loop
  by (relation "measure (\<lambda>(drv, separator, i, result, portsCounter). 257 - i)") auto

declare getAvailablePorts_loop.simps [simp del]

text \<open>
  In \<^verbatim>\<open>result.length() + 1 > bufferSize\<close> the left side is a \<^verbatim>\<open>size_t\<close>, so the
  \<^verbatim>\<open>int\<close> on the right is converted to \<^verbatim>\<open>size_t\<close> (64 bits, sign-extended) and the
  comparison is unsigned.
\<close>

type_synonym size_t = "64 word"

definition getAvailablePorts ::
  "string \<Rightarrow> c_int \<Rightarrow> string \<Rightarrow> driver \<Rightarrow> c_int \<times> string \<times> api_call list" where
  "getAvailablePorts buffer bufferSize separator drv =
     (case getAvailablePorts_loop drv separator 1 [] 0 of
        (result, portsCounter, calls) \<Rightarrow>
          let result' = (if length result > 0 then erase result (length result - 1)
                         else result)
          in if (of_nat (length result') + 1 :: size_t) > scast bufferSize
             then (status BUFFER_ERROR, buffer, calls)
             else (portsCounter, memcpy buffer (result' @ [NUL]) (length result' + 1),
                   calls))"

text \<open>
  The names that open among those probed from \<^verbatim>\<open>COMi\<close> on, in probing order. It is used
  to say what the loop collects.
\<close>

definition openable :: "driver \<Rightarrow> nat \<Rightarrow> string list" where
  "openable drv i = filter (\<lambda>name. CreateFile_answer drv name \<noteq> INVALID_HANDLE_VALUE)
     (map (\<lambda>k. ''COM'' @ to_string k) [i..<257])"

section \<open>The read-until scan as the specification words it\<close>

text \<open>
  The scan of section 4.3 of the specification, over the driver's answers to the
  single-byte reads that the size of the buffer allows: a failed read ends it with a
  failure; a read of zero bytes ends it normally; a received byte is appended to the
  accumulator, and the whole accumulator is then searched for the delimiter as a
  contiguous sublist, which ends the scan when it is found. The result is whether the scan
  ended normally, the accumulator, and the number of reads performed.
\<close>

fun scan_until :: "string \<Rightarrow> string \<Rightarrow> read_answer list \<Rightarrow> bool \<times> string \<times> nat" where
  "scan_until delimiter acc [] = (True, acc, 0)"
| "scan_until delimiter acc (Read_failed # answers) = (False, acc, 1)"
| "scan_until delimiter acc (Read_ok [] # answers) = (True, acc, 1)"
| "scan_until delimiter acc (Read_ok (b # bs) # answers) =
     (if sublist delimiter (acc @ [b]) then (True, acc @ [b], 1)
      else case scan_until delimiter (acc @ [b]) answers of
             (finished, acc', n) \<Rightarrow> (finished, acc', Suc n))"

section \<open>Scenarios\<close>

text \<open>A line state for the driver to report: 1200 baud, 7 data bits, even parity.\<close>

definition reported_state :: DCB where
  "reported_state = \<lparr>DCBlength = 28, BaudRate = 1200, ByteSize = 7, Parity = 2, StopBits = 0,
     other_members = 4113\<rparr>"

text \<open>
  A driver with a device present whose peer has sent \<open>bytes\<close>: every name opens as
  handle 7, every call succeeds, and the \<open>k\<close>-th single-byte read finds the bytes from
  position \<open>k\<close> on.
\<close>

definition peer_sends :: "string \<Rightarrow> driver" where
  "peer_sends bytes = \<lparr>CreateFile_answer = (\<lambda>name. 7),
     GetCommState_answer = Some reported_state,
     SetCommState_answer = True, SetCommTimeouts_answer = True, CloseHandle_answer = True,
     ReadFile_answer = (\<lambda>k. Read_ok (drop k bytes)), WriteFile_answer = Write_ok 64\<rparr>"

text \<open>The same, except that every \<^verbatim>\<open>ReadFile\<close> from the \<open>n\<close>-th on fails.\<close>

definition read_fails_after :: "nat \<Rightarrow> string \<Rightarrow> driver" where
  "read_fails_after n bytes = (peer_sends bytes)\<lparr>ReadFile_answer :=
     (\<lambda>k. if k < n then Read_ok (drop k bytes) else Read_failed)\<rparr>"

text \<open>A driver that refuses every call, as it does for a handle that is not open.\<close>

definition refusing :: driver where
  "refusing = \<lparr>CreateFile_answer = (\<lambda>name. INVALID_HANDLE_VALUE), GetCommState_answer = None,
     SetCommState_answer = False, SetCommTimeouts_answer = False, CloseHandle_answer = False,
     ReadFile_answer = (\<lambda>k. Read_failed), WriteFile_answer = Write_failed\<rparr>"

text \<open>A driver on which exactly \<^verbatim>\<open>COM1\<close> and \<^verbatim>\<open>COM7\<close> can be opened.\<close>

definition two_ports :: driver where
  "two_ports = (peer_sends [])\<lparr>CreateFile_answer :=
     (\<lambda>name. if name = ''COM1'' \<or> name = ''COM7'' then 7 else INVALID_HANDLE_VALUE)\<rparr>"

definition CR :: char where
  "CR = CHR 0x0D"

definition LF :: char where
  "LF = CHR 0x0A"

text \<open>A session holding the open handle 7.\<close>

definition opened_session :: session where
  "opened_session = \<lparr>hSerialPort = 7, dcbSerialParams = zero_DCB,
     timeouts = zero_COMMTIMEOUTS, data = []\<rparr>"

text \<open>
  The session after \<^verbatim>\<open>open("COM3", 9600, 8, 0, 0)\<close> on a present device followed by
  \<^verbatim>\<open>close()\<close>, both successful.
\<close>

definition closed_session :: session where
  "closed_session =
     fst (snd (close (fst (snd (open initial_session ''COM3'' 9600 8 0 0 (peer_sends []))))
       (peer_sends [])))"

text \<open>
  The session after \<^verbatim>\<open>open("COM3", 9600, 8, 0, 0)\<close> failed on a present device because
  \<^verbatim>\<open>GetCommState\<close> failed.
\<close>

definition failed_open_session :: session where
  "failed_open_session =
     fst (snd (open initial_session ''COM3'' 9600 8 0 0
       ((peer_sends [])\<lparr>GetCommState_answer := None\<rparr>)))"

section \<open>Auxiliary facts\<close>

subsection \<open>Status codes and machine integers\<close>

lemma status_eq_iff: "status a = status b \<longleftrightarrow> a = b"
  by (cases a; cases b; simp)

lemma status_negative: "a \<noteq> SUCCESS \<Longrightarrow> sint (status a) < 0"
  by (cases a; simp)

lemma uint_of_nonneg:
  fixes x :: c_int
  assumes "0 \<le> sint x"
  shows "uint x = sint x"
proof -
  have "sint x < 2 ^ 31" using sint_lt [of x] by simp
  then have "take_bit 32 (sint x) = sint x"
    using assms by (simp add: take_bit_int_eq_self)
  then show ?thesis by (simp add: uint_sint)
qed

lemma unat_of_nonneg:
  fixes x :: c_int
  assumes "0 \<le> sint x"
  shows "unat x = nat (sint x)"
  using uint_of_nonneg [OF assms] by (simp add: unat_eq_nat_uint)

lemma narrow_in_range:
  fixes x :: c_int
  assumes "0 \<le> sint x" and "sint x < 256"
  shows "uint (ucast x :: BYTE) = sint x"
proof -
  have "uint (ucast x :: BYTE) = take_bit 8 (uint x)"
    by (simp add: unsigned_ucast_eq)
  then show ?thesis
    using assms by (simp add: uint_of_nonneg take_bit_int_eq_self)
qed

lemma sint_of_small_nat:
  assumes "n < 2 ^ 31"
  shows "sint (of_nat n :: c_int) = int n"
proof -
  have "sint (of_nat n :: c_int) = signed_take_bit 31 (int n)"
    by (simp add: signed_of_nat)
  also have "\<dots> = int n"
    using assms by (simp add: signed_take_bit_int_eq_self)
  finally show ?thesis .
qed

lemma unat_of_bounded_nat:
  fixes b :: c_int
  assumes "n \<le> unat b"
  shows "unat (of_nat n :: c_int) = n"
proof -
  have "unat b < 2 ^ 32" using unsigned_less [of b] by simp
  with assms have "n < 2 ^ 32" by simp
  then show ?thesis by (simp add: unat_of_nat)
qed

lemma count_within_size:
  fixes bufferSize :: c_int
  assumes "n \<le> unat bufferSize" and "0 \<le> sint bufferSize"
  shows "sint (of_nat n :: c_int) = int n \<and> int n \<le> sint bufferSize"
proof -
  have "sint bufferSize < 2 ^ 31" using sint_lt [of bufferSize] by simp
  with assms have n: "int n \<le> sint bufferSize" "n < 2 ^ 31"
    by (simp_all add: unat_of_nonneg)
  then show ?thesis
    by (simp add: sint_of_small_nat)
qed

subsection \<open>The loop of \<^verbatim>\<open>readUntil\<close>\<close>

lemma string_find_None_iff: "string_find s pat = None \<longleftrightarrow> \<not> sublist pat s"
  by (induction s) (auto simp: sublist_Cons_right)

lemma loop_stops_on_match:
  "sublist (c_str searchString) dat \<Longrightarrow>
     readUntil_loop drv h bufferSize searchString i dat = (True, dat, [])"
  by (subst readUntil_loop.simps) (simp add: string_find_None_iff)

lemma loop_stops_at_size:
  "\<not> i <s bufferSize \<Longrightarrow>
     readUntil_loop drv h bufferSize searchString i dat = (True, dat, [])"
  by (subst readUntil_loop.simps) simp

lemma sint_Suc:
  fixes i b :: c_int
  assumes "sint i < sint b"
  shows "sint (i + 1) = sint i + 1"
proof -
  have "sint b < 2 ^ 31" using sint_lt [of b] by simp
  moreover have "- (2 ^ 31) \<le> sint i" using sint_ge [of i] by simp
  ultimately have "- (2 ^ 31) \<le> sint i + 1 \<and> sint i + 1 < 2 ^ 31"
    using assms by simp
  then show ?thesis
    by (simp add: sint_word_ariths signed_take_bit_int_eq_self)
qed

lemma loop_refines_scan:
  assumes "\<not> sublist (c_str searchString) dat" and "0 \<le> sint i"
  shows "readUntil_loop drv h bufferSize searchString i dat =
    (case scan_until (c_str searchString) dat
            (map (ReadFile_answer drv) [nat (sint i)..<nat (sint bufferSize)]) of
       (finished, acc, n) \<Rightarrow> (finished, acc, replicate n (ReadFile h 1)))"
  using assms
proof (induction drv h bufferSize searchString i dat rule: readUntil_loop.induct)
  case (1 drv h bufferSize searchString i dat)
  show ?case
  proof (cases "i <s bufferSize")
    case False
    then have "nat (sint bufferSize) \<le> nat (sint i)"
      by (simp add: word_sless_alt)
    then show ?thesis
      using False by (simp add: loop_stops_at_size)
  next
    case True
    then have less: "sint i < sint bufferSize"
      by (simp add: word_sless_alt)
    have idx: "unat i = nat (sint i)"
      using "1.prems"(2) by (rule unat_of_nonneg)
    have next_i: "sint (i + 1) = sint i + 1"
      using less by (rule sint_Suc)
    have range: "[nat (sint i)..<nat (sint bufferSize)] =
        nat (sint i) # [nat (sint (i + 1))..<nat (sint bufferSize)]"
      using less "1.prems"(2) by (simp add: upt_conv_Cons next_i nat_add_distrib)
    have cond: "i <s bufferSize \<and> string_find dat (c_str searchString) = None"
      using True "1.prems"(1) by (simp add: string_find_None_iff)
    show ?thesis
    proof (cases "ReadFile_answer drv (nat (sint i))")
      case Read_failed
      then show ?thesis
        using cond by (subst readUntil_loop.simps) (simp add: idx range)
    next
      case (Read_ok available)
      show ?thesis
      proof (cases available)
        case Nil
        then show ?thesis
          using cond Read_ok by (subst readUntil_loop.simps) (simp add: idx range)
      next
        case (Cons b bs)
        show ?thesis
        proof (cases "sublist (c_str searchString) (dat @ [b])")
          case True
          then show ?thesis
            using cond Read_ok Cons
            by (subst readUntil_loop.simps) (simp add: idx range loop_stops_on_match)
        next
          case False
          have "readUntil_loop drv h bufferSize searchString (i + 1) (dat @ [b]) =
            (case scan_until (c_str searchString) (dat @ [b])
               (map (ReadFile_answer drv) [nat (sint (i + 1))..<nat (sint bufferSize)]) of
             (finished, acc, n) \<Rightarrow> (finished, acc, replicate n (ReadFile h 1)))"
            using "1.IH" [of available "take 1 available"] cond Read_ok Cons False
              "1.prems"(2) next_i
            by (simp add: idx)
          then show ?thesis
            using cond Read_ok Cons False
            by (subst readUntil_loop.simps) (simp add: idx range split: prod.splits)
        qed
      qed
    qed
  qed
qed

lemma scan_until_reads: "scan_until d acc answers = (finished, acc', n) \<Longrightarrow> n \<le> length answers"
  by (induction d acc answers arbitrary: finished acc' n rule: scan_until.induct)
     (auto split: if_splits prod.splits)

lemma scan_until_length:
  "scan_until d acc answers = (finished, acc', n) \<Longrightarrow> length acc' \<le> length acc + n"
  by (induction d acc answers arbitrary: finished acc' n rule: scan_until.induct)
     (fastforce split: if_splits prod.splits)+

lemma loop_length:
  assumes "readUntil_loop drv h bufferSize searchString i dat = (finished, dat', calls)"
    and "0 \<le> sint i"
  shows "int (length dat') \<le> int (length dat) + max 0 (sint bufferSize - sint i)"
  using assms
proof (induction drv h bufferSize searchString i dat arbitrary: finished dat' calls
    rule: readUntil_loop.induct)
  case (1 drv h bufferSize searchString i dat)
  show ?case
  proof (cases "i <s bufferSize \<and> string_find dat (c_str searchString) = None")
    case False
    then have "readUntil_loop drv h bufferSize searchString i dat = (True, dat, [])"
      by (subst readUntil_loop.simps) auto
    with "1.prems" show ?thesis by simp
  next
    case True
    then have less: "sint i < sint bufferSize"
      by (simp add: word_sless_alt)
    have next_i: "sint (i + 1) = sint i + 1"
      using less by (rule sint_Suc)
    show ?thesis
    proof (cases "ReadFile_answer drv (unat i)")
      case Read_failed
      then have "readUntil_loop drv h bufferSize searchString i dat = (False, dat, [ReadFile h 1])"
        using True by (subst readUntil_loop.simps) simp
      with "1.prems" show ?thesis by simp
    next
      case (Read_ok available)
      show ?thesis
      proof (cases available)
        case Nil
        then have "readUntil_loop drv h bufferSize searchString i dat = (True, dat, [ReadFile h 1])"
          using True Read_ok by (subst readUntil_loop.simps) simp
        with "1.prems" show ?thesis by simp
      next
        case (Cons b bs)
        obtain f d c where rec: "readUntil_loop drv h bufferSize searchString (i + 1) (dat @ [b]) = (f, d, c)"
          by (metis prod_cases3)
        have "readUntil_loop drv h bufferSize searchString i dat = (f, d, ReadFile h 1 # c)"
          using True Read_ok Cons rec by (subst readUntil_loop.simps) simp
        with "1.prems" have d: "dat' = d" by simp
        have "int (length d) \<le> int (length (dat @ [b])) + max 0 (sint bufferSize - sint (i + 1))"
          using "1.IH" [of available "take 1 available" f d c] True Read_ok Cons rec
            "1.prems"(2) next_i
          by simp
        then show ?thesis
          using d less next_i by simp
      qed
    qed
  qed
qed

lemma readUntil_paths:
  assumes "readUntil s buffer bufferSize timeout multiplier searchString drv =
      (ret, s', buffer', calls)"
  shows "(ret = status INVALID_HANDLE_ERROR \<or> ret = status SET_TIMEOUT_ERROR
            \<or> ret = status READ_ERROR) \<and> buffer' = buffer
    \<or> ret = of_nat (length (data s'))
        \<and> buffer' = data s' @ NUL # drop (length (data s') + 1) buffer
        \<and> int (length (data s')) \<le> max 0 (sint bufferSize)"
proof -
  obtain finished dat c2 where loop:
    "readUntil_loop drv (hSerialPort s) bufferSize searchString 0 [] = (finished, dat, c2)"
    by (metis prod_cases3)
  from loop_length [OF loop] have "int (length dat) \<le> max 0 (sint bufferSize)"
    by simp
  with assms loop show ?thesis
    by (auto simp: readUntil_def Let_def memcpy_def split: if_splits)
qed

lemma length_as_int:
  fixes bufferSize :: c_int
  assumes "int n \<le> max 0 (sint bufferSize)"
  shows "sint (of_nat n :: c_int) = int n"
proof -
  have "sint bufferSize < 2 ^ 31" using sint_lt [of bufferSize] by simp
  with assms have "n < 2 ^ 31" by auto
  then show ?thesis by (rule sint_of_small_nat)
qed

subsection \<open>The handle test\<close>

lemma closed_session_handle: "hSerialPort closed_session = 7"
  by (simp add: closed_session_def open_def close_def peer_sends_def Let_def
      INVALID_HANDLE_VALUE_def)

lemma count_is_no_status:
  fixes bufferSize :: c_int
  assumes "int n \<le> max 0 (sint bufferSize)"
  shows "(of_nat n :: c_int) \<noteq> status INVALID_HANDLE_ERROR"
proof
  assume "(of_nat n :: c_int) = status INVALID_HANDLE_ERROR"
  then have "sint (of_nat n :: c_int) = sint (status INVALID_HANDLE_ERROR)"
    by simp
  then show False
    using length_as_int [OF assms] by simp
qed

lemma read_never_invalid:
  assumes "hSerialPort s \<noteq> INVALID_HANDLE_VALUE" and "0 \<le> sint bufferSize"
  shows "fst (read s buffer bufferSize timeout multiplier drv) \<noteq> status INVALID_HANDLE_ERROR"
proof -
  have "(of_nat (length (take (unat bufferSize) available)) :: c_int)
      \<noteq> status INVALID_HANDLE_ERROR" for available :: string
    by (rule count_is_no_status [where bufferSize = bufferSize])
      (simp add: unat_of_nonneg [OF assms(2)])
  then show ?thesis
    using assms(1)
    by (auto simp: read_def Let_def split: read_answer.splits simp del: length_take)
qed

lemma readUntil_never_invalid:
  assumes "hSerialPort s \<noteq> INVALID_HANDLE_VALUE"
  shows "fst (readUntil s buffer bufferSize timeout multiplier searchString drv)
    \<noteq> status INVALID_HANDLE_ERROR"
proof -
  obtain finished dat c2 where loop:
    "readUntil_loop drv (hSerialPort s) bufferSize searchString 0 [] = (finished, dat, c2)"
    by (rule prod_cases3)
  from loop_length [OF loop] have "int (length dat) \<le> max 0 (sint bufferSize)"
    by simp
  then have "(of_nat (length dat) :: c_int) \<noteq> status INVALID_HANDLE_ERROR"
    by (rule count_is_no_status)
  then show ?thesis
    using assms loop by (simp add: readUntil_def Let_def)
qed

lemma write_never_invalid:
  assumes "0 \<le> sint bufferSize"
  shows "fst (write s buffer bufferSize timeout multiplier drv) \<noteq> status INVALID_HANDLE_ERROR"
proof -
  have "(of_nat (min accepted (unat bufferSize)) :: c_int) \<noteq> status INVALID_HANDLE_ERROR"
    for accepted :: nat
    by (rule count_is_no_status [where bufferSize = bufferSize])
      (simp add: unat_of_nonneg [OF assms])
  then show ?thesis
    by (auto simp: write_def Let_def split: write_answer.splits)
qed

lemma close_never_invalid:
  assumes "hSerialPort s \<noteq> INVALID_HANDLE_VALUE"
  shows "fst (close s drv) \<noteq> status INVALID_HANDLE_ERROR
    \<and> snd (snd (close s drv)) = [CloseHandle (hSerialPort s)]
    \<and> fst (snd (close s drv)) = s"
  using assms by (simp add: close_def)

subsection \<open>The loop of \<^verbatim>\<open>getAvailablePorts\<close>\<close>

lemma loop_collects:
  assumes "getAvailablePorts_loop drv separator i result portsCounter = (res, cnt, calls)"
  shows "res = result @ concat (map (\<lambda>name. name @ c_str separator) (openable drv i))
    \<and> cnt = portsCounter + of_nat (length (openable drv i))"
  using assms
proof (induction drv separator i result portsCounter arbitrary: res cnt calls
    rule: getAvailablePorts_loop.induct)
  case (1 drv separator i result portsCounter)
  show ?case
  proof (cases "i \<le> 256")
    case False
    then have "openable drv i = []"
      by (simp add: openable_def)
    moreover have "getAvailablePorts_loop drv separator i result portsCounter
        = (result, portsCounter, [])"
      using False by (subst getAvailablePorts_loop.simps) simp
    ultimately show ?thesis
      using "1.prems" by simp
  next
    case True
    define portName where "portName = ''COM'' @ to_string i"
    define hPort where "hPort = CreateFile_answer drv portName"
    define portsCounter' where "portsCounter' =
      (if hPort \<noteq> INVALID_HANDLE_VALUE then portsCounter + 1 else portsCounter)"
    define result' where "result' =
      (if hPort \<noteq> INVALID_HANDLE_VALUE then result @ (portName @ c_str separator)
       else result)"
    obtain r c cs where rec:
      "getAvailablePorts_loop drv separator (i + 1) result' portsCounter' = (r, c, cs)"
      by (rule prod_cases3)
    have step: "getAvailablePorts_loop drv separator i result portsCounter
        = (r, c, CreateFile portName hPort # CloseHandle hPort # cs)"
      using True rec unfolding portName_def hPort_def portsCounter'_def result'_def
      by (subst getAvailablePorts_loop.simps) (auto simp: Let_def)
    have ih: "r = result' @ concat (map (\<lambda>name. name @ c_str separator) (openable drv (i + 1)))
        \<and> c = portsCounter' + of_nat (length (openable drv (i + 1)))"
      using "1.IH" [OF True portName_def hPort_def portsCounter'_def result'_def rec] .
    have range: "[i..<257] = i # [i + 1..<257]"
      using True by (simp add: upt_conv_Cons)
    have names: "openable drv i =
        (if hPort \<noteq> INVALID_HANDLE_VALUE then portName # openable drv (i + 1)
         else openable drv (i + 1))"
      by (simp add: openable_def range hPort_def portName_def)
    show ?thesis
      using "1.prems" step ih names
      by (auto simp: result'_def portsCounter'_def)
  qed
qed

lemma size_t_succ:
  assumes "m < 2 ^ 31"
  shows "uint (of_nat m + 1 :: size_t) = int m + 1"
proof -
  have "int m + 1 \<le> 2 ^ 31"
    using assms by (simp add: of_nat_less_numeral_power_cancel_iff [symmetric] del: of_nat_less_numeral_power_cancel_iff)
  also have "(2 :: int) ^ 31 < 2 ^ 64"
    by (rule power_strict_increasing) simp_all
  finally have bound: "int m + 1 < 2 ^ LENGTH(64)"
    by (simp only: len_num1 len_bit0 mult_numeral_1_right numeral_times_numeral semiring_norm)
  have nonneg: "0 \<le> int m + 1" by simp
  have "(of_nat m + 1 :: size_t) = word_of_int (int m + 1)"
    by simp
  then have "uint (of_nat m + 1 :: size_t) = take_bit LENGTH(64) (int m + 1)"
    by (simp only: uint_word_of_int_eq)
  also have "\<dots> = int m + 1"
    using nonneg bound by (rule take_bit_int_eq_self)
  finally show ?thesis .
qed

lemma size_t_of_int:
  fixes b :: c_int
  assumes "0 \<le> sint b"
  shows "uint (scast b :: size_t) = sint b"
proof -
  have "sint b < 2 ^ 31"
    using sint_lt [of b] by simp
  also have "(2 :: int) ^ 31 < 2 ^ 64"
    by (rule power_strict_increasing) simp_all
  finally have bound: "sint b < 2 ^ LENGTH(64)"
    by (simp only: len_num1 len_bit0 mult_numeral_1_right numeral_times_numeral semiring_norm)
  have "uint (scast b :: size_t) = take_bit LENGTH(64) (sint b)"
    by (simp only: scast_eq uint_word_of_int_eq)
  also have "\<dots> = sint b"
    using assms bound by (rule take_bit_int_eq_self)
  finally show ?thesis .
qed

lemma getAvailablePorts_result:
  fixes drv :: driver and separator buffer :: string and bufferSize :: c_int
  defines "trailing \<equiv> concat (map (\<lambda>name. name @ c_str separator) (openable drv 1))"
  assumes "length trailing < 2 ^ 31" and "0 \<le> sint bufferSize"
  shows "fst (getAvailablePorts buffer bufferSize separator drv) =
      (if int (length (butlast trailing)) + 1 > sint bufferSize then status BUFFER_ERROR
       else of_nat (length (openable drv 1)))
    \<and> fst (snd (getAvailablePorts buffer bufferSize separator drv)) =
      (if int (length (butlast trailing)) + 1 > sint bufferSize then buffer
       else butlast trailing @ NUL # drop (length (butlast trailing) + 1) buffer)"
proof -
  obtain res cnt calls where loop:
    "getAvailablePorts_loop drv separator 1 [] 0 = (res, cnt, calls)"
    by (rule prod_cases3)
  from loop_collects [OF loop] have res: "res = trailing"
    and cnt: "cnt = of_nat (length (openable drv 1))"
    by (simp_all add: trailing_def)
  have erased: "(if length res > 0 then erase res (length res - 1) else res) = butlast trailing"
    by (simp add: res erase_def butlast_conv_take)
  define m where "m = length (butlast trailing)"
  have m: "m < 2 ^ 31"
    using assms(2) by (simp add: m_def)
  have "uint (of_nat m + 1 :: size_t) = int m + 1"
    using m by (rule size_t_succ)
  moreover have "uint (scast bufferSize :: size_t) = sint bufferSize"
    using assms(3) by (rule size_t_of_int)
  ultimately have test: "(of_nat m + 1 :: size_t) > scast bufferSize
      \<longleftrightarrow> int m + 1 > sint bufferSize"
    by (simp add: word_less_def)
  show ?thesis
    using loop test erased
    by (simp add: getAvailablePorts_def Let_def memcpy_def cnt m_def del: of_nat_add)
qed

lemma two_ports_openable: "openable two_ports 1 = [''COM1'', ''COM7'']"
  by code_simp

lemma two_ports_openable_Suc: "openable two_ports (Suc 0) = [''COM1'', ''COM7'']"
  using two_ports_openable by simp

section \<open>\<^verbatim>\<open>open\<close>\<close>

text \<open>
  What the failure paths of \<^verbatim>\<open>open\<close> do: the status is that of the first failing step,
  and when a handle was acquired the last driver call is \<^verbatim>\<open>CloseHandle\<close> on it, so that
  the driver calls of a failed \<^verbatim>\<open>open\<close> leave no handle open.
\<close>

lemma open_failure_paths:
  fixes drv :: driver and portName :: string
  defines "h \<equiv> CreateFile_answer drv portName"
  assumes "open s portName baudrate dataBits parity stopBits drv = (ret, s', calls)"
  shows "(ret \<noteq> status SUCCESS \<longrightarrow> unreleased calls [] = [])
    \<and> (h = INVALID_HANDLE_VALUE \<longrightarrow>
          ret = status INVALID_HANDLE_ERROR \<and> calls = [CreateFile portName h])
    \<and> (h \<noteq> INVALID_HANDLE_VALUE \<and> GetCommState_answer drv = None \<longrightarrow>
          ret = status GET_PROPERTY_ERROR
          \<and> calls = [CreateFile portName h, GetCommState h, CloseHandle h])
    \<and> (h \<noteq> INVALID_HANDLE_VALUE \<and> GetCommState_answer drv \<noteq> None
          \<and> \<not> SetCommState_answer drv \<longrightarrow>
          ret = status SET_PROPERTY_ERROR
          \<and> calls = [CreateFile portName h, GetCommState h,
                SetCommState h (dcbSerialParams s'), CloseHandle h])
    \<and> (h \<noteq> INVALID_HANDLE_VALUE \<and> GetCommState_answer drv \<noteq> None
          \<and> SetCommState_answer drv \<and> \<not> SetCommTimeouts_answer drv \<longrightarrow>
          ret = status SET_TIMEOUT_ERROR
          \<and> calls = [CreateFile portName h, GetCommState h,
                SetCommState h (dcbSerialParams s'), SetCommTimeouts h (timeouts s'),
                CloseHandle h])"
  using assms(2) unfolding h_def
  by (auto simp: open_def Let_def status_eq_iff split: if_splits option.splits)

text \<open>
  Claim C5 says that every failure path of \<^verbatim>\<open>open\<close> releases the handle and leaves the
  session closed. The handle is released, but the session is left closed only when
  \<^verbatim>\<open>CreateFile\<close> fails, which leaves \<^verbatim>\<open>INVALID_HANDLE_VALUE\<close> in the variable. On the
  three other failure paths the code calls \<^verbatim>\<open>CloseHandle\<close> and returns without resetting
  \<open>hSerialPort\<close>: after \<^verbatim>\<open>open("COM3", 9600, 8, 0, 0)\<close> has failed with
  \<^verbatim>\<open>GET_PROPERTY_ERROR\<close>, \<^verbatim>\<open>SET_PROPERTY_ERROR\<close> or \<^verbatim>\<open>SET_TIMEOUT_ERROR\<close> the variable
  holds the released handle 7, exactly as after a successful \<^verbatim>\<open>open\<close>. On that session
  \<^verbatim>\<open>close()\<close> calls \<^verbatim>\<open>CloseHandle\<close> on handle 7 a second time and reports what the
  driver answers, and \<^verbatim>\<open>read\<close> goes to the driver and, when the driver serves the handle,
  returns 2 with two bytes stored in the buffer; neither returns \<^verbatim>\<open>INVALID_HANDLE_ERROR\<close>,
  which both return after the \<^verbatim>\<open>CreateFile\<close> failure.
\<close>

theorem failed_open_keeps_handle:
  "open initial_session ''COM3'' 9600 8 0 0 ((peer_sends [])\<lparr>GetCommState_answer := None\<rparr>)
     = (status GET_PROPERTY_ERROR, failed_open_session,
        [CreateFile ''COM3'' 7, GetCommState 7, CloseHandle 7])
   \<and> hSerialPort failed_open_session = 7
   \<and> fst (open initial_session ''COM3'' 9600 8 0 0
          ((peer_sends [])\<lparr>SetCommState_answer := False\<rparr>)) = status SET_PROPERTY_ERROR
   \<and> hSerialPort (fst (snd (open initial_session ''COM3'' 9600 8 0 0
          ((peer_sends [])\<lparr>SetCommState_answer := False\<rparr>)))) = 7
   \<and> fst (open initial_session ''COM3'' 9600 8 0 0
          ((peer_sends [])\<lparr>SetCommTimeouts_answer := False\<rparr>)) = status SET_TIMEOUT_ERROR
   \<and> hSerialPort (fst (snd (open initial_session ''COM3'' 9600 8 0 0
          ((peer_sends [])\<lparr>SetCommTimeouts_answer := False\<rparr>)))) = 7
   \<and> hSerialPort (fst (snd (open initial_session ''COM3'' 9600 8 0 0 (peer_sends [])))) = 7
   \<and> (7 :: HANDLE) \<noteq> INVALID_HANDLE_VALUE
   \<and> fst (open initial_session ''COM99'' 9600 8 0 0 refusing) = status INVALID_HANDLE_ERROR
   \<and> hSerialPort (fst (snd (open initial_session ''COM99'' 9600 8 0 0 refusing)))
        = INVALID_HANDLE_VALUE
   \<and> close failed_open_session (peer_sends [])
        = (status SUCCESS, failed_open_session, [CloseHandle 7])
   \<and> close failed_open_session refusing
        = (status CLOSE_HANDLE_ERROR, failed_open_session, [CloseHandle 7])
   \<and> fst (read failed_open_session ''........'' 8 50 10 (peer_sends ''AB'')) = 2
   \<and> fst (snd (snd (read failed_open_session ''........'' 8 50 10 (peer_sends ''AB''))))
        = ''AB......''
   \<and> fst (read failed_open_session ''........'' 8 50 10 refusing) = status SET_TIMEOUT_ERROR
   \<and> fst (close (fst (snd (open initial_session ''COM99'' 9600 8 0 0 refusing))) refusing)
        = status INVALID_HANDLE_ERROR
   \<and> fst (read (fst (snd (open initial_session ''COM99'' 9600 8 0 0 refusing)))
          ''........'' 8 50 10 refusing) = status INVALID_HANDLE_ERROR"
proof -
  have session: "failed_open_session =
      initial_session\<lparr>dcbSerialParams := zero_DCB\<lparr>DCBlength := sizeof_DCB\<rparr>,
        hSerialPort := 7\<rparr>"
    by (simp add: failed_open_session_def open_def peer_sends_def Let_def
        INVALID_HANDLE_VALUE_def initial_session_def)
  have opens: "open initial_session ''COM3'' 9600 8 0 0
        ((peer_sends [])\<lparr>GetCommState_answer := None\<rparr>)
      = (status GET_PROPERTY_ERROR, failed_open_session,
         [CreateFile ''COM3'' 7, GetCommState 7, CloseHandle 7])"
    unfolding failed_open_session_def
    by (simp add: open_def peer_sends_def Let_def INVALID_HANDLE_VALUE_def)
  have others: "fst (open initial_session ''COM3'' 9600 8 0 0
          ((peer_sends [])\<lparr>SetCommState_answer := False\<rparr>)) = status SET_PROPERTY_ERROR"
    "hSerialPort (fst (snd (open initial_session ''COM3'' 9600 8 0 0
          ((peer_sends [])\<lparr>SetCommState_answer := False\<rparr>)))) = 7"
    "fst (open initial_session ''COM3'' 9600 8 0 0
          ((peer_sends [])\<lparr>SetCommTimeouts_answer := False\<rparr>)) = status SET_TIMEOUT_ERROR"
    "hSerialPort (fst (snd (open initial_session ''COM3'' 9600 8 0 0
          ((peer_sends [])\<lparr>SetCommTimeouts_answer := False\<rparr>)))) = 7"
    "hSerialPort (fst (snd (open initial_session ''COM3'' 9600 8 0 0 (peer_sends [])))) = 7"
    by (simp_all add: open_def peer_sends_def Let_def INVALID_HANDLE_VALUE_def)
  have absent: "fst (open initial_session ''COM99'' 9600 8 0 0 refusing)
      = status INVALID_HANDLE_ERROR"
    "hSerialPort (fst (snd (open initial_session ''COM99'' 9600 8 0 0 refusing)))
      = INVALID_HANDLE_VALUE"
    by (simp_all add: open_def refusing_def Let_def)
  have closes: "close failed_open_session (peer_sends [])
      = (status SUCCESS, failed_open_session, [CloseHandle 7])"
    "close failed_open_session refusing
      = (status CLOSE_HANDLE_ERROR, failed_open_session, [CloseHandle 7])"
    by (simp_all add: close_def session peer_sends_def refusing_def INVALID_HANDLE_VALUE_def)
  have reads: "fst (read failed_open_session ''........'' 8 50 10 (peer_sends ''AB'')) = 2"
    "fst (snd (snd (read failed_open_session ''........'' 8 50 10 (peer_sends ''AB''))))
      = ''AB......''"
    "fst (read failed_open_session ''........'' 8 50 10 refusing) = status SET_TIMEOUT_ERROR"
    by (simp_all add: read_def session peer_sends_def refusing_def INVALID_HANDLE_VALUE_def
        Let_def memcpy_def)
  have rejected: "fst (close (fst (snd (open initial_session ''COM99'' 9600 8 0 0 refusing)))
        refusing) = status INVALID_HANDLE_ERROR"
    "fst (read (fst (snd (open initial_session ''COM99'' 9600 8 0 0 refusing)))
        ''........'' 8 50 10 refusing) = status INVALID_HANDLE_ERROR"
    by (simp_all add: close_def read_def absent(2))
  have "hSerialPort failed_open_session = 7"
    by (simp add: session)
  moreover have "(7 :: HANDLE) \<noteq> INVALID_HANDLE_VALUE"
    by (simp add: INVALID_HANDLE_VALUE_def)
  ultimately show ?thesis
    using opens others absent closes reads rejected by simp
qed

text \<open>
  Claim C6. When every driver call succeeds, \<^verbatim>\<open>open\<close> fetches the line state, overwrites
  exactly \<^verbatim>\<open>BaudRate\<close>, \<^verbatim>\<open>ByteSize\<close>, \<^verbatim>\<open>Parity\<close> and \<^verbatim>\<open>StopBits\<close> with the
  arguments (the last three narrowed to a byte, which leaves a value between 0 and 255 as it
  is), commits that state, then commits the timeouts 50, 50, 10, 50, 10, and returns
  \<^verbatim>\<open>SUCCESS\<close>, which is 0. The driver calls are exactly these four, in this order.
\<close>

theorem open_success:
  fixes drv :: driver and portName :: string and fetched :: DCB
    and baudrate dataBits parity stopBits :: c_int
  defines "h \<equiv> CreateFile_answer drv portName"
    and "dcb \<equiv> fetched\<lparr>BaudRate := baudrate, ByteSize := ucast dataBits,
           Parity := ucast parity, StopBits := ucast stopBits\<rparr>"
    and "t \<equiv> \<lparr>ReadIntervalTimeout = 50, ReadTotalTimeoutMultiplier = 10,
           ReadTotalTimeoutConstant = 50, WriteTotalTimeoutMultiplier = 10,
           WriteTotalTimeoutConstant = 50\<rparr>"
  assumes "CreateFile_answer drv portName \<noteq> INVALID_HANDLE_VALUE"
    and "GetCommState_answer drv = Some fetched"
    and "SetCommState_answer drv" and "SetCommTimeouts_answer drv"
  shows "open s portName baudrate dataBits parity stopBits drv =
      (status SUCCESS, \<lparr>hSerialPort = h, dcbSerialParams = dcb, timeouts = t, data = data s\<rparr>,
       [CreateFile portName h, GetCommState h, SetCommState h dcb, SetCommTimeouts h t])
    \<and> status SUCCESS = 0
    \<and> DCBlength dcb = DCBlength fetched \<and> other_members dcb = other_members fetched
    \<and> BaudRate dcb = baudrate
    \<and> (0 \<le> sint dataBits \<and> sint dataBits < 256 \<longrightarrow> uint (ByteSize dcb) = sint dataBits)
    \<and> (0 \<le> sint parity \<and> sint parity < 256 \<longrightarrow> uint (Parity dcb) = sint parity)
    \<and> (0 \<le> sint stopBits \<and> sint stopBits < 256 \<longrightarrow> uint (StopBits dcb) = sint stopBits)"
  using assms(4-) unfolding h_def dcb_def t_def
  by (simp add: open_def Let_def narrow_in_range)

text \<open>\<^verbatim>\<open>open("COM3", 9600, 8, 0, 0)\<close> on a present device.\<close>

theorem open_success_witness:
  "open initial_session ''COM3'' 9600 8 0 0 (peer_sends []) =
     (0,
      \<lparr>hSerialPort = 7,
       dcbSerialParams = \<lparr>DCBlength = 28, BaudRate = 9600, ByteSize = 8, Parity = 0,
         StopBits = 0, other_members = 4113\<rparr>,
       timeouts = \<lparr>ReadIntervalTimeout = 50, ReadTotalTimeoutMultiplier = 10,
         ReadTotalTimeoutConstant = 50, WriteTotalTimeoutMultiplier = 10,
         WriteTotalTimeoutConstant = 50\<rparr>,
       data = []\<rparr>,
      [CreateFile ''COM3'' 7, GetCommState 7,
       SetCommState 7 \<lparr>DCBlength = 28, BaudRate = 9600, ByteSize = 8, Parity = 0,
         StopBits = 0, other_members = 4113\<rparr>,
       SetCommTimeouts 7 \<lparr>ReadIntervalTimeout = 50, ReadTotalTimeoutMultiplier = 10,
         ReadTotalTimeoutConstant = 50, WriteTotalTimeoutMultiplier = 10,
         WriteTotalTimeoutConstant = 50\<rparr>])
   \<and> 0 \<le> sint (8 :: c_int) \<and> sint (8 :: c_int) < 256
   \<and> uint (ucast (8 :: c_int) :: BYTE) = sint (8 :: c_int)"
  using open_success [where drv = "peer_sends []" and portName = "''COM3''"
      and fetched = reported_state and s = initial_session and baudrate = 9600 and dataBits = 8
      and parity = 0 and stopBits = 0]
  by (simp add: peer_sends_def INVALID_HANDLE_VALUE_def initial_session_def reported_state_def)

section \<open>\<^verbatim>\<open>read\<close>\<close>

text \<open>
  Claim C7. On a session whose handle is not \<^verbatim>\<open>INVALID_HANDLE_VALUE\<close>, \<^verbatim>\<open>read\<close> sets the
  inter-byte interval and the total read constant to \<open>timeout\<close> and the per-byte
  multiplier to \<open>multiplier\<close>, and commits them. If the commit fails, the result is
  \<^verbatim>\<open>SET_TIMEOUT_ERROR\<close> and no read is issued. Otherwise exactly one \<^verbatim>\<open>ReadFile\<close> is
  issued, asking for \<open>bufferSize\<close> bytes: if it fails the result is \<^verbatim>\<open>READ_ERROR\<close>, and
  if it succeeds the result is the number of bytes received, which are stored at the start
  of the buffer. That number, as the \<^verbatim>\<open>DWORD\<close> the driver reports, never exceeds the
  \<^verbatim>\<open>DWORD\<close> the driver was given; for a buffer size that is not negative this is the
  statement about the \<^verbatim>\<open>int\<close> values: the result is the count, is not negative and is at
  most \<open>bufferSize\<close>.
\<close>

theorem read_opened:
  fixes s :: session and timeout multiplier bufferSize :: c_int and drv :: driver
    and buffer :: string
  defines "h \<equiv> hSerialPort s"
    and "t \<equiv> (timeouts s)\<lparr>ReadIntervalTimeout := timeout,
           ReadTotalTimeoutConstant := timeout, ReadTotalTimeoutMultiplier := multiplier\<rparr>"
    and "result \<equiv> read s buffer bufferSize timeout multiplier drv"
  assumes "hSerialPort s \<noteq> INVALID_HANDLE_VALUE"
  shows "(\<not> SetCommTimeouts_answer drv \<longrightarrow>
            result = (status SET_TIMEOUT_ERROR, s\<lparr>timeouts := t\<rparr>, buffer,
              [SetCommTimeouts h t]))
    \<and> (SetCommTimeouts_answer drv \<and> ReadFile_answer drv 0 = Read_failed \<longrightarrow>
            result = (status READ_ERROR, s\<lparr>timeouts := t\<rparr>, buffer,
              [SetCommTimeouts h t, ReadFile h bufferSize]))
    \<and> (\<forall>available. SetCommTimeouts_answer drv \<and> ReadFile_answer drv 0 = Read_ok available \<longrightarrow>
          (let received = take (unat bufferSize) available;
               ret = (of_nat (length received) :: c_int)
           in result = (ret, s\<lparr>timeouts := t\<rparr>, received @ drop (length received) buffer,
                [SetCommTimeouts h t, ReadFile h bufferSize])
              \<and> unat ret = length received \<and> unat ret \<le> unat bufferSize
              \<and> (0 \<le>s bufferSize \<longrightarrow>
                    sint ret = int (length received) \<and> 0 \<le>s ret \<and> ret \<le>s bufferSize)))"
proof -
  have "unat (of_nat n :: c_int) = n" if "n \<le> unat bufferSize" for n
    using that by (rule unat_of_bounded_nat)
  moreover have "sint (of_nat n :: c_int) = int n \<and> int n \<le> sint bufferSize"
    if "n \<le> unat bufferSize" "0 \<le> sint bufferSize" for n
    using that by (rule count_within_size)
  ultimately show ?thesis
    using assms(4) unfolding h_def t_def result_def
    by (simp add: read_def Let_def memcpy_def word_sle_eq)
qed

text \<open>
  \<^verbatim>\<open>read(buf, 4, 20, 1)\<close> on an open session: the commit refused, the read refused, six
  bytes pending (four are delivered), and nothing pending (zero is returned).
\<close>

theorem read_opened_witness:
  "read opened_session ''........'' 4 20 1 refusing =
     (status SET_TIMEOUT_ERROR,
      opened_session\<lparr>timeouts := \<lparr>ReadIntervalTimeout = 20, ReadTotalTimeoutMultiplier = 1,
         ReadTotalTimeoutConstant = 20, WriteTotalTimeoutMultiplier = 0,
         WriteTotalTimeoutConstant = 0\<rparr>\<rparr>,
      ''........'',
      [SetCommTimeouts 7 \<lparr>ReadIntervalTimeout = 20, ReadTotalTimeoutMultiplier = 1,
         ReadTotalTimeoutConstant = 20, WriteTotalTimeoutMultiplier = 0,
         WriteTotalTimeoutConstant = 0\<rparr>])
   \<and> fst (read opened_session ''........'' 4 20 1
          (refusing\<lparr>SetCommTimeouts_answer := True\<rparr>)) = status READ_ERROR
   \<and> fst (read opened_session ''........'' 4 20 1 (peer_sends ''ABCDEF'')) = 4
   \<and> fst (snd (snd (read opened_session ''........'' 4 20 1 (peer_sends ''ABCDEF''))))
        = ''ABCD....''
   \<and> snd (snd (snd (read opened_session ''........'' 4 20 1 (peer_sends ''ABCDEF''))))
        = [SetCommTimeouts 7 \<lparr>ReadIntervalTimeout = 20, ReadTotalTimeoutMultiplier = 1,
             ReadTotalTimeoutConstant = 20, WriteTotalTimeoutMultiplier = 0,
             WriteTotalTimeoutConstant = 0\<rparr>,
           ReadFile 7 4]
   \<and> (0 :: c_int) \<le>s 4
   \<and> fst (read opened_session ''........'' 4 20 1 (peer_sends [])) = 0"
  using read_opened [where s = opened_session and drv = refusing and buffer = "''........''"
      and bufferSize = 4 and timeout = 20 and multiplier = 1]
    read_opened [where s = opened_session and drv = "refusing\<lparr>SetCommTimeouts_answer := True\<rparr>"
      and buffer = "''........''" and bufferSize = 4 and timeout = 20 and multiplier = 1]
    read_opened [where s = opened_session and drv = "peer_sends ''ABCDEF''"
      and buffer = "''........''" and bufferSize = 4 and timeout = 20 and multiplier = 1]
    read_opened [where s = opened_session and drv = "peer_sends []"
      and buffer = "''........''" and bufferSize = 4 and timeout = 20 and multiplier = 1]
  by (simp add: opened_session_def refusing_def peer_sends_def INVALID_HANDLE_VALUE_def
      zero_COMMTIMEOUTS_def Let_def word_sle_eq)

section \<open>\<^verbatim>\<open>readUntil\<close>\<close>

text \<open>
  Claim C2. On a session whose handle is not \<^verbatim>\<open>INVALID_HANDLE_VALUE\<close>, with the timeouts
  committed and a delimiter that is not empty, \<^verbatim>\<open>readUntil\<close> behaves as the scan
  \<open>scan_until\<close>: it issues \<open>n\<close> single-byte reads, \<open>n\<close> at most \<open>bufferSize\<close>,
  appends each received byte to the accumulator, searches the whole accumulator for the
  delimiter after each append and stops at the first match, at a read of zero bytes or
  after \<open>bufferSize\<close> reads. On a normal exit the buffer receives the accumulator and
  one zero byte, and the result is the length of the accumulator; on a failed read the
  result is \<^verbatim>\<open>READ_ERROR\<close> and the buffer is as before.
\<close>

theorem readUntil_scan:
  fixes s :: session and searchString buffer :: string and drv :: driver
    and timeout multiplier bufferSize :: c_int
  defines "h \<equiv> hSerialPort s"
    and "delimiter \<equiv> c_str searchString"
    and "t \<equiv> (timeouts s)\<lparr>ReadIntervalTimeout := timeout,
           ReadTotalTimeoutConstant := timeout, ReadTotalTimeoutMultiplier := multiplier\<rparr>"
  assumes "hSerialPort s \<noteq> INVALID_HANDLE_VALUE" and "SetCommTimeouts_answer drv"
    and "delimiter \<noteq> []"
    and "scan_until delimiter []
           (map (ReadFile_answer drv) [0..<nat (sint bufferSize)]) = (finished, acc, n)"
  shows "readUntil s buffer bufferSize timeout multiplier searchString drv =
      (if finished then of_nat (length acc) else status READ_ERROR,
       s\<lparr>timeouts := t, data := acc\<rparr>,
       if finished then acc @ NUL # drop (length acc + 1) buffer else buffer,
       SetCommTimeouts h t # replicate n (ReadFile h 1))
    \<and> n \<le> nat (sint bufferSize) \<and> length acc \<le> n
    \<and> sint (of_nat (length acc) :: c_int) = int (length acc)"
proof -
  have scan: "scan_until (c_str searchString) []
      (map (ReadFile_answer drv) [0..<nat (sint bufferSize)]) = (finished, acc, n)"
    using assms(7) by (simp add: delimiter_def)
  have "\<not> sublist (c_str searchString) []"
    using assms(6) by (simp add: delimiter_def)
  then have loop: "readUntil_loop drv (hSerialPort s) bufferSize searchString 0 [] =
      (finished, acc, replicate n (ReadFile (hSerialPort s) 1))"
    using loop_refines_scan [of searchString "[]" 0 drv "hSerialPort s" bufferSize] scan
    by simp
  have n: "n \<le> nat (sint bufferSize)"
    using scan_until_reads [OF scan] by simp
  have len: "length acc \<le> n"
    using scan_until_length [OF scan] by simp
  have "int (length acc) \<le> max 0 (sint bufferSize)"
    using n len by linarith
  then have "sint (of_nat (length acc) :: c_int) = int (length acc)"
    by (rule length_as_int)
  with n len loop assms(4,5) show ?thesis
    by (simp add: readUntil_def Let_def memcpy_def h_def t_def)
qed

text \<open>
  The peer sends \<^verbatim>\<open>HELLO\r\nWORLD\<close> and the delimiter is \<^verbatim>\<open>\r\n\<close>, found although its
  two bytes arrive in different reads: seven reads, result 7. And a read that fails after
  three bytes.
\<close>

theorem readUntil_scan_witness:
  "readUntil opened_session ''............'' 32 100 2 [CR, LF, NUL]
      (peer_sends (''HELLO'' @ [CR, LF] @ ''WORLD'')) =
     (7,
      opened_session\<lparr>timeouts := \<lparr>ReadIntervalTimeout = 100, ReadTotalTimeoutMultiplier = 2,
         ReadTotalTimeoutConstant = 100, WriteTotalTimeoutMultiplier = 0,
         WriteTotalTimeoutConstant = 0\<rparr>, data := ''HELLO'' @ [CR, LF]\<rparr>,
      ''HELLO'' @ [CR, LF, NUL] @ ''....'',
      SetCommTimeouts 7 \<lparr>ReadIntervalTimeout = 100, ReadTotalTimeoutMultiplier = 2,
         ReadTotalTimeoutConstant = 100, WriteTotalTimeoutMultiplier = 0,
         WriteTotalTimeoutConstant = 0\<rparr> # replicate 7 (ReadFile 7 1))
   \<and> fst (readUntil opened_session ''............'' 32 50 1 [CHR ''Z'', NUL]
        (read_fails_after 3 ''ABCDE''))
       = status READ_ERROR"
proof -
  have delim: "c_str [CR, LF, NUL] \<noteq> []" "c_str [CHR ''Z'', NUL] \<noteq> []"
    by (simp_all add: c_str_def CR_def LF_def NUL_def)
  have found: "scan_until (c_str [CR, LF, NUL]) []
      (map (ReadFile_answer (peer_sends (''HELLO'' @ [CR, LF] @ ''WORLD'')))
        [0..<nat (sint (32 :: c_int))]) = (True, ''HELLO'' @ [CR, LF], 7)"
    by code_simp
  have failed: "scan_until (c_str [CHR ''Z'', NUL]) []
      (map (ReadFile_answer (read_fails_after 3 ''ABCDE''))
        [0..<nat (sint (32 :: c_int))]) = (False, ''ABC'', 4)"
    by code_simp
  have valid: "hSerialPort opened_session \<noteq> INVALID_HANDLE_VALUE"
    by (simp add: opened_session_def INVALID_HANDLE_VALUE_def)
  have ok1: "SetCommTimeouts_answer (peer_sends (''HELLO'' @ [CR, LF] @ ''WORLD''))"
    by (simp add: peer_sends_def)
  have ok2: "SetCommTimeouts_answer (read_fails_after 3 ''ABCDE'')"
    by (simp add: read_fails_after_def peer_sends_def)
  show ?thesis
    using readUntil_scan [OF valid ok1 delim(1) found, of "''............''" 100 2]
      readUntil_scan [OF valid ok2 delim(2) failed, of "''............''" 50 1]
    by (simp add: opened_session_def zero_COMMTIMEOUTS_def)
qed

text \<open>
  Claim C3. When \<open>bufferSize\<close> is not negative and \<^verbatim>\<open>readUntil\<close> returns a value that is
  not negative, the buffer holds the payload (the accumulator), then one zero byte, then
  its former content; the payload has at most \<open>bufferSize\<close> bytes, and the result is the
  length of the payload.
\<close>

theorem readUntil_buffer_bound:
  assumes "0 \<le>s bufferSize"
    and "readUntil s buffer bufferSize timeout multiplier searchString drv =
      (ret, s', buffer', calls)"
    and "0 \<le>s ret"
  shows "buffer' = data s' @ NUL # drop (length (data s') + 1) buffer
    \<and> int (length (data s')) \<le> sint bufferSize
    \<and> sint ret = int (length (data s'))"
proof -
  have "sint (status INVALID_HANDLE_ERROR) < 0" "sint (status SET_TIMEOUT_ERROR) < 0"
    "sint (status READ_ERROR) < 0"
    by (simp_all add: status_negative)
  with assms(3) have "ret \<noteq> status INVALID_HANDLE_ERROR" "ret \<noteq> status SET_TIMEOUT_ERROR"
    "ret \<noteq> status READ_ERROR"
    by (auto simp: word_sle_eq)
  with readUntil_paths [OF assms(2)]
  have ok: "ret = of_nat (length (data s'))"
      "buffer' = data s' @ NUL # drop (length (data s') + 1) buffer"
      "int (length (data s')) \<le> max 0 (sint bufferSize)"
    by auto
  from ok(3) have "sint ret = int (length (data s'))"
    unfolding ok(1) by (rule length_as_int)
  with ok assms(1) show ?thesis
    by (simp add: word_sle_eq)
qed

text \<open>Five bytes pending and a buffer size of 3: the payload is three bytes long.\<close>

theorem readUntil_buffer_bound_witness:
  "(0 :: c_int) \<le>s 3
   \<and> 0 \<le>s fst (readUntil opened_session ''........'' 3 50 1 [CHR ''Z'', NUL]
        (peer_sends ''ABCDE''))
   \<and> fst (snd (snd (readUntil opened_session ''........'' 3 50 1 [CHR ''Z'', NUL]
        (peer_sends ''ABCDE'')))) = ''ABC'' @ [NUL] @ ''....''
   \<and> sint (fst (readUntil opened_session ''........'' 3 50 1 [CHR ''Z'', NUL]
        (peer_sends ''ABCDE''))) = 3"
proof -
  obtain ret s' buffer' calls where run:
    "readUntil opened_session ''........'' 3 50 1 [CHR ''Z'', NUL] (peer_sends ''ABCDE'') =
      (ret, s', buffer', calls)"
    by (rule prod_cases4)
  have "fst (readUntil opened_session ''........'' 3 50 1 [CHR ''Z'', NUL]
      (peer_sends ''ABCDE'')) = 3"
    by code_simp
  with run have ret: "ret = 3" by simp
  have "data (fst (snd (readUntil opened_session ''........'' 3 50 1 [CHR ''Z'', NUL]
      (peer_sends ''ABCDE'')))) = ''ABC''"
    by code_simp
  with run have dat: "data s' = ''ABC''" by simp
  have size: "(0 :: c_int) \<le>s 3" and nonneg: "0 \<le>s ret"
    by (simp_all add: ret word_sle_eq)
  from readUntil_buffer_bound [OF size run nonneg] show ?thesis
    using size nonneg by (simp add: run dat)
qed

text \<open>
  Claim C10. Whenever \<^verbatim>\<open>readUntil\<close> returns a negative value, the caller's buffer is
  what it was before the call.
\<close>

theorem readUntil_error_keeps_buffer:
  assumes "readUntil s buffer bufferSize timeout multiplier searchString drv =
      (ret, s', buffer', calls)"
    and "ret <s 0"
  shows "buffer' = buffer"
proof -
  have "\<not> (of_nat (length (data s')) :: c_int) <s 0"
    if "int (length (data s')) \<le> max 0 (sint bufferSize)"
    using length_as_int [OF that] by (simp add: word_sless_alt)
  with readUntil_paths [OF assms(1)] assms(2) show ?thesis
    by auto
qed

text \<open>
  A read fails after three bytes were accumulated: the result is negative, the
  accumulator holds the three bytes, and the buffer is untouched.
\<close>

theorem readUntil_error_keeps_buffer_witness:
  "fst (readUntil opened_session ''........'' 32 50 1 [CHR ''Z'', NUL]
        (read_fails_after 3 ''ABCDE'')) <s 0
   \<and> data (fst (snd (readUntil opened_session ''........'' 32 50 1 [CHR ''Z'', NUL]
        (read_fails_after 3 ''ABCDE'')))) = ''ABC''
   \<and> fst (snd (snd (readUntil opened_session ''........'' 32 50 1 [CHR ''Z'', NUL]
        (read_fails_after 3 ''ABCDE'')))) = ''........''"
proof -
  obtain ret s' buffer' calls where run:
    "readUntil opened_session ''........'' 32 50 1 [CHR ''Z'', NUL]
        (read_fails_after 3 ''ABCDE'') =
      (ret, s', buffer', calls)"
    by (rule prod_cases4)
  have "fst (readUntil opened_session ''........'' 32 50 1 [CHR ''Z'', NUL]
        (read_fails_after 3 ''ABCDE'')) = - 6"
    by code_simp
  with run have ret: "ret = - 6" by simp
  have "data (fst (snd (readUntil opened_session ''........'' 32 50 1 [CHR ''Z'', NUL]
        (read_fails_after 3 ''ABCDE'')))) = ''ABC''"
    by code_simp
  with run have dat: "data s' = ''ABC''" by simp
  have neg: "ret <s 0"
    by (simp add: ret word_sless_alt)
  from readUntil_error_keeps_buffer [OF run neg] show ?thesis
    using neg by (simp add: run dat)
qed

section \<open>\<^verbatim>\<open>write\<close>\<close>

text \<open>
  Claim C8. \<^verbatim>\<open>write\<close> sets the total write constant to \<open>timeout\<close> and the total write
  multiplier to \<open>multiplier\<close> and commits them. If the commit fails, the result is
  \<^verbatim>\<open>SET_TIMEOUT_ERROR\<close> and no write is issued. Otherwise exactly one \<^verbatim>\<open>WriteFile\<close> is
  issued, on the caller's buffer and for \<open>bufferSize\<close> bytes: if it fails the result is
  \<^verbatim>\<open>WRITE_ERROR\<close>, and if it succeeds the result is the number of bytes written, which
  never exceeds the number requested.
\<close>

theorem write_behaviour:
  fixes s :: session and timeout multiplier bufferSize :: c_int and drv :: driver
    and buffer :: string
  defines "h \<equiv> hSerialPort s"
    and "t \<equiv> (timeouts s)\<lparr>WriteTotalTimeoutConstant := timeout,
           WriteTotalTimeoutMultiplier := multiplier\<rparr>"
    and "result \<equiv> write s buffer bufferSize timeout multiplier drv"
  shows "(\<not> SetCommTimeouts_answer drv \<longrightarrow>
            result = (status SET_TIMEOUT_ERROR, s\<lparr>timeouts := t\<rparr>, [SetCommTimeouts h t]))
    \<and> (SetCommTimeouts_answer drv \<and> WriteFile_answer drv = Write_failed \<longrightarrow>
            result = (status WRITE_ERROR, s\<lparr>timeouts := t\<rparr>,
              [SetCommTimeouts h t, WriteFile h buffer bufferSize]))
    \<and> (\<forall>accepted. SetCommTimeouts_answer drv \<and> WriteFile_answer drv = Write_ok accepted \<longrightarrow>
          (let written = min accepted (unat bufferSize);
               ret = (of_nat written :: c_int)
           in result = (ret, s\<lparr>timeouts := t\<rparr>,
                [SetCommTimeouts h t, WriteFile h buffer bufferSize])
              \<and> unat ret = written \<and> unat ret \<le> unat bufferSize
              \<and> (0 \<le>s bufferSize \<longrightarrow>
                    sint ret = int written \<and> 0 \<le>s ret \<and> ret \<le>s bufferSize)))"
proof -
  have "unat (of_nat n :: c_int) = n" if "n \<le> unat bufferSize" for n
    using that by (rule unat_of_bounded_nat)
  moreover have "sint (of_nat n :: c_int) = int n \<and> int n \<le> sint bufferSize"
    if "n \<le> unat bufferSize" "0 \<le> sint bufferSize" for n
    using that by (rule count_within_size)
  ultimately show ?thesis
    unfolding h_def t_def result_def
    by (simp add: write_def Let_def word_sle_eq)
qed

text \<open>
  \<^verbatim>\<open>write("PING", 4, 30, 2)\<close> on an open session: the commit refused, the write refused,
  all four bytes accepted, and only three accepted.
\<close>

theorem write_behaviour_witness:
  "write opened_session ''PING'' 4 30 2 refusing =
     (status SET_TIMEOUT_ERROR,
      opened_session\<lparr>timeouts := \<lparr>ReadIntervalTimeout = 0, ReadTotalTimeoutMultiplier = 0,
         ReadTotalTimeoutConstant = 0, WriteTotalTimeoutMultiplier = 2,
         WriteTotalTimeoutConstant = 30\<rparr>\<rparr>,
      [SetCommTimeouts 7 \<lparr>ReadIntervalTimeout = 0, ReadTotalTimeoutMultiplier = 0,
         ReadTotalTimeoutConstant = 0, WriteTotalTimeoutMultiplier = 2,
         WriteTotalTimeoutConstant = 30\<rparr>])
   \<and> fst (write opened_session ''PING'' 4 30 2
          (refusing\<lparr>SetCommTimeouts_answer := True\<rparr>)) = status WRITE_ERROR
   \<and> fst (write opened_session ''PING'' 4 30 2 (peer_sends [])) = 4
   \<and> snd (snd (write opened_session ''PING'' 4 30 2 (peer_sends [])))
        = [SetCommTimeouts 7 \<lparr>ReadIntervalTimeout = 0, ReadTotalTimeoutMultiplier = 0,
             ReadTotalTimeoutConstant = 0, WriteTotalTimeoutMultiplier = 2,
             WriteTotalTimeoutConstant = 30\<rparr>,
           WriteFile 7 ''PING'' 4]
   \<and> (0 :: c_int) \<le>s 4
   \<and> fst (write opened_session ''PING'' 4 30 2
          ((peer_sends [])\<lparr>WriteFile_answer := Write_ok 3\<rparr>)) = 3"
  using write_behaviour [where s = opened_session and drv = refusing and buffer = "''PING''"
      and bufferSize = 4 and timeout = 30 and multiplier = 2]
    write_behaviour [where s = opened_session
      and drv = "refusing\<lparr>SetCommTimeouts_answer := True\<rparr>"
      and buffer = "''PING''" and bufferSize = 4 and timeout = 30 and multiplier = 2]
    write_behaviour [where s = opened_session and drv = "peer_sends []"
      and buffer = "''PING''" and bufferSize = 4 and timeout = 30 and multiplier = 2]
    write_behaviour [where s = opened_session
      and drv = "(peer_sends [])\<lparr>WriteFile_answer := Write_ok 3\<rparr>"
      and buffer = "''PING''" and bufferSize = 4 and timeout = 30 and multiplier = 2]
  by (simp add: opened_session_def refusing_def peer_sends_def INVALID_HANDLE_VALUE_def
      zero_COMMTIMEOUTS_def Let_def word_sle_eq)

section \<open>Operations on a session that is not open\<close>

text \<open>
  Claim C1 says that \<^verbatim>\<open>read\<close>, \<^verbatim>\<open>readUntil\<close> and \<^verbatim>\<open>write\<close> return
  \<^verbatim>\<open>INVALID_HANDLE_ERROR\<close> on a session that was never opened or was closed. The code
  does not: after \<^verbatim>\<open>open("COM3", 9600, 8, 0, 0)\<close> and \<^verbatim>\<open>close()\<close>, both successful, the
  variable still holds the released handle 7, and before any \<^verbatim>\<open>open\<close> it holds the null
  handle; neither is \<^verbatim>\<open>INVALID_HANDLE_VALUE\<close>. So each of the three operations goes on to
  \<^verbatim>\<open>SetCommTimeouts\<close> and, the driver refusing the handle, returns
  \<^verbatim>\<open>SET_TIMEOUT_ERROR\<close>. Whatever the driver answers, none of them returns
  \<^verbatim>\<open>INVALID_HANDLE_ERROR\<close> on the closed session, and the driver is called on the
  released handle.
\<close>

theorem io_after_close_not_rejected:
  "fst (open initial_session ''COM3'' 9600 8 0 0 (peer_sends [])) = status SUCCESS
   \<and> fst (close (fst (snd (open initial_session ''COM3'' 9600 8 0 0 (peer_sends []))))
        (peer_sends [])) = status SUCCESS
   \<and> hSerialPort closed_session = 7
   \<and> fst (read closed_session ''........'' 8 50 10 refusing) = status SET_TIMEOUT_ERROR
   \<and> fst (readUntil closed_session ''........'' 8 50 10 [LF, NUL] refusing)
        = status SET_TIMEOUT_ERROR
   \<and> fst (write closed_session ''PING'' 4 50 10 refusing) = status SET_TIMEOUT_ERROR
   \<and> fst (read initial_session ''........'' 8 50 10 refusing) = status SET_TIMEOUT_ERROR
   \<and> fst (readUntil initial_session ''........'' 8 50 10 [LF, NUL] refusing)
        = status SET_TIMEOUT_ERROR
   \<and> fst (write initial_session ''PING'' 4 50 10 refusing) = status SET_TIMEOUT_ERROR
   \<and> status SET_TIMEOUT_ERROR \<noteq> status INVALID_HANDLE_ERROR
   \<and> (\<forall>drv. fst (read closed_session ''........'' 8 50 10 drv)
          \<noteq> status INVALID_HANDLE_ERROR)
   \<and> (\<forall>drv. fst (readUntil closed_session ''........'' 8 50 10 [LF, NUL] drv)
          \<noteq> status INVALID_HANDLE_ERROR)
   \<and> (\<forall>drv. fst (write closed_session ''PING'' 4 50 10 drv)
          \<noteq> status INVALID_HANDLE_ERROR)
   \<and> (\<exists>t. snd (snd (snd (read closed_session ''........'' 8 50 10 refusing)))
          = [SetCommTimeouts 7 t])
   \<and> (\<exists>t. snd (snd (write closed_session ''PING'' 4 50 10 refusing))
          = [SetCommTimeouts 7 t])"
proof -
  have valid: "hSerialPort closed_session \<noteq> INVALID_HANDLE_VALUE"
    "hSerialPort initial_session \<noteq> INVALID_HANDLE_VALUE"
    by (simp_all add: closed_session_handle initial_session_def NULL_HANDLE_def
        INVALID_HANDLE_VALUE_def)
  have "fst (open initial_session ''COM3'' 9600 8 0 0 (peer_sends [])) = status SUCCESS"
    by (simp add: open_def peer_sends_def Let_def INVALID_HANDLE_VALUE_def)
  moreover have "fst (close (fst (snd (open initial_session ''COM3'' 9600 8 0 0
      (peer_sends [])))) (peer_sends [])) = status SUCCESS"
    by (simp add: open_def close_def peer_sends_def Let_def INVALID_HANDLE_VALUE_def)
  moreover have "fst (read s ''........'' 8 50 10 refusing) = status SET_TIMEOUT_ERROR"
    "fst (readUntil s ''........'' 8 50 10 [LF, NUL] refusing) = status SET_TIMEOUT_ERROR"
    if "hSerialPort s \<noteq> INVALID_HANDLE_VALUE" for s
    using that by (simp_all add: read_def readUntil_def refusing_def Let_def)
  moreover have "fst (write s ''PING'' 4 50 10 refusing) = status SET_TIMEOUT_ERROR" for s
    by (simp add: write_def refusing_def Let_def)
  moreover have "\<forall>drv. fst (read closed_session ''........'' 8 50 10 drv)
      \<noteq> status INVALID_HANDLE_ERROR"
    using read_never_invalid [OF valid(1), of 8] by simp
  moreover have "\<forall>drv. fst (readUntil closed_session ''........'' 8 50 10 [LF, NUL] drv)
      \<noteq> status INVALID_HANDLE_ERROR"
    using readUntil_never_invalid [OF valid(1)] by simp
  moreover have "\<forall>drv. fst (write closed_session ''PING'' 4 50 10 drv)
      \<noteq> status INVALID_HANDLE_ERROR"
    using write_never_invalid [of 4] by simp
  moreover have "\<exists>t. snd (snd (snd (read closed_session ''........'' 8 50 10 refusing)))
      = [SetCommTimeouts 7 t]"
    using valid(1) by (simp add: read_def refusing_def Let_def closed_session_handle)
  moreover have "\<exists>t. snd (snd (write closed_session ''PING'' 4 50 10 refusing))
      = [SetCommTimeouts 7 t]"
    by (simp add: write_def refusing_def Let_def closed_session_handle)
  ultimately show ?thesis
    using valid by (simp add: closed_session_handle)
qed

text \<open>
  Claim C9 says that \<^verbatim>\<open>close\<close> returns \<^verbatim>\<open>INVALID_HANDLE_ERROR\<close> on a session that is not
  open. The code does so only while the variable is \<^verbatim>\<open>INVALID_HANDLE_VALUE\<close>, which it is
  neither before any \<^verbatim>\<open>open\<close> nor after a successful \<^verbatim>\<open>close\<close>: a second
  \<^verbatim>\<open>close()\<close> after a successful one, and a \<^verbatim>\<open>close()\<close> on a session never opened, call
  \<^verbatim>\<open>CloseHandle\<close> on the released or null handle and return what the driver answers,
  \<^verbatim>\<open>CLOSE_HANDLE_ERROR\<close> when it refuses, and never \<^verbatim>\<open>INVALID_HANDLE_ERROR\<close>.
\<close>

theorem close_after_close_not_rejected:
  "close closed_session refusing
     = (status CLOSE_HANDLE_ERROR, closed_session, [CloseHandle 7])
   \<and> close initial_session refusing
     = (status CLOSE_HANDLE_ERROR, initial_session, [CloseHandle NULL_HANDLE])
   \<and> status CLOSE_HANDLE_ERROR \<noteq> status INVALID_HANDLE_ERROR
   \<and> (\<forall>drv. fst (close closed_session drv) \<noteq> status INVALID_HANDLE_ERROR)
   \<and> (\<forall>drv. fst (close initial_session drv) \<noteq> status INVALID_HANDLE_ERROR)
   \<and> hSerialPort (fst (snd (close (fst (snd (open initial_session ''COM3'' 9600 8 0 0
        (peer_sends [])))) (peer_sends [])))) \<noteq> INVALID_HANDLE_VALUE"
proof -
  have valid: "hSerialPort closed_session \<noteq> INVALID_HANDLE_VALUE"
    "hSerialPort initial_session \<noteq> INVALID_HANDLE_VALUE"
    by (simp_all add: closed_session_handle initial_session_def NULL_HANDLE_def
        INVALID_HANDLE_VALUE_def)
  have "close s refusing = (status CLOSE_HANDLE_ERROR, s, [CloseHandle (hSerialPort s)])"
    if "hSerialPort s \<noteq> INVALID_HANDLE_VALUE" for s
    using that by (simp add: close_def refusing_def)
  moreover have "hSerialPort initial_session = NULL_HANDLE"
    by (simp add: initial_session_def)
  moreover have "hSerialPort (fst (snd (close (fst (snd (open initial_session ''COM3'' 9600 8 0 0
        (peer_sends [])))) (peer_sends [])))) = hSerialPort closed_session"
    by (simp add: closed_session_def)
  ultimately show ?thesis
    using valid close_never_invalid [OF valid(1)] close_never_invalid [OF valid(2)]
    by (simp add: closed_session_handle)
qed

section \<open>\<^verbatim>\<open>getAvailablePorts\<close>\<close>

text \<open>
  Claim C4 says that the names are joined with the separator between adjacent names and
  without a trailing separator. The code appends the separator after every name and then
  erases one character. With \<^verbatim>\<open>COM1\<close> and \<^verbatim>\<open>COM7\<close> openable and the separator
  \<^verbatim>\<open>", "\<close> the buffer receives \<^verbatim>\<open>COM1, COM7,\<close> with a comma at its end; with the empty
  separator it receives \<^verbatim>\<open>COM1COM\<close>, the last name cut. With the one-character separator
  \<^verbatim>\<open>","\<close> the result is the join \<^verbatim>\<open>COM1,COM7\<close>, and a buffer of 4 bytes gives
  \<^verbatim>\<open>BUFFER_ERROR\<close> with the buffer untouched.
\<close>

theorem getAvailablePorts_trailing_separator:
  "fst (getAvailablePorts ''................'' 32 [CHR '','', CHR '' '', NUL] two_ports) = 2
   \<and> fst (snd (getAvailablePorts ''................'' 32 [CHR '','', CHR '' '', NUL] two_ports))
        = ''COM1, COM7,'' @ [NUL] @ ''....''
   \<and> fst (getAvailablePorts ''................'' 32 [NUL] two_ports) = 2
   \<and> fst (snd (getAvailablePorts ''................'' 32 [NUL] two_ports))
        = ''COM1COM'' @ [NUL] @ ''........''
   \<and> fst (getAvailablePorts ''................'' 32 [CHR '','', NUL] two_ports) = 2
   \<and> fst (snd (getAvailablePorts ''................'' 32 [CHR '','', NUL] two_ports))
        = ''COM1,COM7'' @ [NUL] @ ''......''
   \<and> fst (getAvailablePorts ''................'' 4 [CHR '','', NUL] two_ports)
        = status BUFFER_ERROR
   \<and> fst (snd (getAvailablePorts ''................'' 4 [CHR '','', NUL] two_ports))
        = ''................''"
  using getAvailablePorts_result [of "[CHR '','', CHR '' '', NUL]" two_ports 32 "''................''"]
    getAvailablePorts_result [of "[NUL]" two_ports 32 "''................''"]
    getAvailablePorts_result [of "[CHR '','', NUL]" two_ports 32 "''................''"]
    getAvailablePorts_result [of "[CHR '','', NUL]" two_ports 4 "''................''"]
  by (simp add: two_ports_openable two_ports_openable_Suc c_str_def NUL_def)

end
